theory Spec2Isabelle
  imports Main
begin

section \<open>Python values used by the two mailers\<close>

text \<open>
  A value of type \<open>str | None\<close> is a \<open>string option\<close>. Python's truth test on such a
  value is false for \<open>None\<close> and for the empty string. An f-string interpolation of
  \<open>None\<close> prints the four characters \<open>None\<close>.
\<close>

definition truthy :: "string option \<Rightarrow> bool" where
  "truthy v = (case v of None \<Rightarrow> False | Some s \<Rightarrow> s \<noteq> [])"

definition fmt :: "string option \<Rightarrow> string" where
  "fmt v = (case v of None \<Rightarrow> ''None'' | Some s \<Rightarrow> s)"

text \<open>The JSON documents handed to \<open>httpx\<close> and the keyword arguments handed to the logger.\<close>

datatype json =
    JNull
  | JBool bool
  | JInt int
  | JStr string
  | JList "json list"
  | JObj "(string \<times> json) list"

definition json_of :: "string option \<Rightarrow> json" where
  "json_of v = (case v of None \<Rightarrow> JNull | Some s \<Rightarrow> JStr s)"

text \<open>Member lookup in a JSON object; every other JSON value has no members.\<close>

fun json_member :: "string \<Rightarrow> json \<Rightarrow> json option" where
  "json_member k (JObj kvs) = map_of kvs k"
| "json_member k _ = None"

text \<open>
  Modelled from the spec: the record \<open>PromotionGame\<close> of \<open>models.py\<close>, which is not among
  the sources; the spec gives it the text attributes title, url and description.
\<close>

record PromotionGame =
  title :: string
  url :: string
  description :: string

section \<open>The outside world: MSAL, httpx and the logger\<close>

text \<open>
  The handle of an \<open>msal.ConfidentialClientApplication\<close>: the three arguments it was
  built from. The result of a token call is a dictionary or \<open>None\<close>; the dictionary is
  an association list read with \<open>map_of\<close>.
\<close>

record msal_app =
  app_client_id :: "string option"
  app_client_credential :: "string option"
  app_authority :: "string option"

type_synonym token_result = "(string \<times> string) list"

definition truthy_result :: "token_result option \<Rightarrow> bool" where
  "truthy_result r = (case r of None \<Rightarrow> False | Some d \<Rightarrow> d \<noteq> [])"

definition has_key :: "string \<Rightarrow> token_result \<Rightarrow> bool" where
  "has_key k d = (map_of d k \<noteq> None)"

text \<open>The dictionary of a result; \<open>None\<close> is only read after the truth test has failed.\<close>

definition result_dict :: "token_result option \<Rightarrow> token_result" where
  "result_dict r = (case r of None \<Rightarrow> [] | Some d \<Rightarrow> d)"

text \<open>\<open>result.get(k) if result else None\<close>\<close>

definition get_if :: "token_result option \<Rightarrow> string \<Rightarrow> string option" where
  "get_if r k = (case r of None \<Rightarrow> None | Some d \<Rightarrow> (if d = [] then None else map_of d k))"

record response =
  status_code :: nat
  response_text :: string

text \<open>\<open>httpx.Response.is_success\<close>: the status is one of 200 .. 299.\<close>

definition is_success :: "response \<Rightarrow> bool" where
  "is_success r = (200 \<le> status_code r \<and> status_code r \<le> 299)"

text \<open>
  The answers of the identity provider and of the Graph endpoint are parameters: a world
  gives the result of each of the three outbound calls as a function of its arguments.
  The outbound calls are the two token methods of the application object and the POST;
  building the application object is not counted as one. Each call returns its answer: a
  transport failure inside MSAL or httpx is outside this model.
\<close>

record world =
  acquire_token_silent :: "msal_app \<Rightarrow> string list \<Rightarrow> token_result option"
  acquire_token_for_client :: "msal_app \<Rightarrow> string list \<Rightarrow> token_result option"
  post :: "string \<Rightarrow> json \<Rightarrow> (string \<times> string) list \<Rightarrow> response"

datatype level = DEBUG | WARNING | ERROR | SUCCESS

text \<open>
  What a run does besides returning: the outbound calls it makes and the log records it
  writes, in order.
\<close>

datatype event =
    TokenSilent msal_app "string list"
  | TokenForClient msal_app "string list"
  | Post string json "(string \<times> string) list"
  | Log level string "(string \<times> json) list"

fun is_call :: "event \<Rightarrow> bool" where
  "is_call (Log _ _ _) = False"
| "is_call _ = True"

fun is_token_request :: "event \<Rightarrow> bool" where
  "is_token_request (TokenSilent _ _) = True"
| "is_token_request (TokenForClient _ _) = True"
| "is_token_request _ = False"

fun is_post :: "event \<Rightarrow> bool" where
  "is_post (Post _ _ _) = True"
| "is_post _ = False"

datatype py_exception =
    AssertionError
  | TypeError
  | RuntimeError string
  | HTTPStatusError response

definition scopes :: "string list" where
  "scopes = [''https://graph.microsoft.com/.default'']"

section \<open>\<open>app/extensions/ms_graph_mailer.py\<close>\<close>

record MsGraphMailer =
  client_id :: "string option"
  client_secret :: "string option"
  tenant_id :: "string option"
  sender :: "string option"
  recipient :: "string option"
  confidential_client :: "msal_app option"

text \<open>\<open>MsGraphMailer.__init__\<close>; the arguments in the order of the source.\<close>

definition MsGraphMailer_init ::
  "string option \<Rightarrow> string option \<Rightarrow> string option \<Rightarrow> string option \<Rightarrow> string option
   \<Rightarrow> MsGraphMailer" where
  "MsGraphMailer_init cid secret tid snd_addr rcpt =
     (let authority =
            (if truthy tid then Some (''https://login.microsoftonline.com/'' @ fmt tid) else None)
      in \<lparr>client_id = cid, client_secret = secret, tenant_id = tid, sender = snd_addr,
          recipient = rcpt,
          confidential_client =
            (if list_all truthy [cid, secret, authority]
             then Some \<lparr>app_client_id = cid, app_client_credential = secret,
                        app_authority = authority\<rparr>
             else None)\<rparr>)"

definition not_configured_msg :: string where
  "not_configured_msg = ''Microsoft Graph mailer is not fully configured; skip sending digest.''"

definition config_table :: "MsGraphMailer \<Rightarrow> (string \<times> string option) list" where
  "config_table m =
     [(''MS_CLIENT_ID'', client_id m),
      (''MS_CLIENT_SECRET'', client_secret m),
      (''MS_TENANT_ID'', tenant_id m),
      (''MS_SENDER_ADDRESS'', sender m),
      (''MS_RECIPIENT_ADDRESS'', recipient m)]"

definition missing_configs :: "MsGraphMailer \<Rightarrow> string list" where
  "missing_configs m = [name. (name, v) \<leftarrow> config_table m, \<not> truthy v]"

definition is_configured :: "MsGraphMailer \<Rightarrow> bool \<times> event list" where
  "is_configured m =
     (if \<not> list_all truthy [client_id m, client_secret m, tenant_id m, sender m, recipient m]
      then (False,
            [Log WARNING not_configured_msg
               [(''missing_configs'', JList (map JStr (missing_configs m)))]])
      else if confidential_client m = None
      then (False,
            [Log ERROR ''Failed to initialize MSAL confidential client; check configuration.'' []])
      else (True, []))"

text \<open>
  \<open>MsGraphMailer._acquire_token\<close>: the assertion, the silent attempt, the fallback, and
  the check of the result. It returns the token, \<open>None\<close> after logging, or raises.
\<close>

definition MsGraphMailer_acquire_token ::
  "MsGraphMailer \<Rightarrow> world \<Rightarrow> (py_exception + string option) \<times> event list" where
  "MsGraphMailer_acquire_token m w =
     (case confidential_client m of
        None \<Rightarrow> (Inl AssertionError, [])
      | Some app \<Rightarrow>
          (let r1 = acquire_token_silent w app scopes;
               ev1 = [TokenSilent app scopes];
               (result, ev2) =
                 (if \<not> truthy_result r1
                  then (acquire_token_for_client w app scopes, ev1 @ [TokenForClient app scopes])
                  else (r1, ev1))
           in if \<not> truthy_result result \<or> \<not> has_key ''access_token'' (result_dict result)
              then (Inr None,
                    ev2 @ [Log ERROR ''Failed to acquire Microsoft Graph access token.''
                             [(''error'', json_of (get_if result ''error'')),
                              (''description'', json_of (get_if result ''error_description''))]])
              else (Inr (map_of (result_dict result) ''access_token''), ev2)))"

text \<open>\<open>MsGraphMailer._build_body\<close>\<close>

definition game_item :: "PromotionGame \<Rightarrow> string" where
  "game_item game =
     ''<li><strong>'' @ title game @ ''</strong> - <a href=\"'' @ url game @ ''\">'' @ url game
       @ ''</a></li>''"

definition build_body :: "PromotionGame list \<Rightarrow> string" where
  "build_body promotions =
     (let items = promotions
      in if items = [] then ''<p>No free games detected from Epic Store at this time.</p>''
         else (let game_items = concat (map game_item items)
               in ''<p>Here are the current free games on Epic Store:</p><ul>'' @ game_items
                    @ ''</ul>''))"

definition digest_payload :: "MsGraphMailer \<Rightarrow> PromotionGame list \<Rightarrow> json" where
  "digest_payload m promotions =
     JObj [(''message'',
            JObj [(''subject'', JStr ''Epic Store - Weekly Free Games Update''),
                  (''body'', JObj [(''contentType'', JStr ''HTML''),
                                   (''content'', JStr (build_body promotions))]),
                  (''toRecipients'',
                     JList [JObj [(''emailAddress'', JObj [(''address'', json_of (recipient m))])]]),
                  (''from'', JObj [(''emailAddress'', JObj [(''address'', json_of (sender m))])])]),
           (''saveToSentItems'', JStr ''true'')]"

definition sendMail_url :: "string \<Rightarrow> string" where
  "sendMail_url s = ''https://graph.microsoft.com/v1.0/users/'' @ s @ ''/sendMail''"

definition bearer :: "string \<Rightarrow> (string \<times> string) list" where
  "bearer token = [(''Authorization'', ''Bearer '' @ token)]"

text \<open>
  \<open>MsGraphMailer.send_free_game_digest\<close>. The coroutine has a single await, the POST, so
  a run is the sequence of its statements; the result is what the call returns or raises,
  with the events of the run.
\<close>

definition send_free_game_digest ::
  "MsGraphMailer \<Rightarrow> world \<Rightarrow> PromotionGame list \<Rightarrow> (py_exception + unit) \<times> event list" where
  "send_free_game_digest m w promotions =
     (let (ok, ev0) = is_configured m
      in if \<not> ok then (Inr (), ev0)
         else (case MsGraphMailer_acquire_token m w of
                 (Inl e, ev1) \<Rightarrow> (Inl e, ev0 @ ev1)
               | (Inr token, ev1) \<Rightarrow>
                   if \<not> truthy token then (Inr (), ev0 @ ev1)
                   else (let payload = digest_payload m promotions;
                             headers = bearer (fmt token);
                             u = sendMail_url (fmt (sender m));
                             resp = post w u payload headers;
                             ev2 = [Post u payload headers]
                         in if is_success resp
                            then (Inr (),
                                  ev0 @ ev1 @ ev2
                                    @ [Log SUCCESS
                                         ''Free game digest email sent via Microsoft Graph.'' []])
                            else (Inr (),
                                  ev0 @ ev1 @ ev2
                                    @ [Log ERROR ''Failed to send free game digest email.''
                                         [(''status_code'', JInt (int (status_code resp))),
                                          (''content'', JStr (response_text resp))]]))))"

text \<open>
  The last two statements of \<open>send_free_game_digest\<close> on their own, for a given token:
  the POST and the log record of its outcome.
\<close>

definition post_and_log ::
  "MsGraphMailer \<Rightarrow> world \<Rightarrow> PromotionGame list \<Rightarrow> string option \<Rightarrow> event list" where
  "post_and_log m w promotions token =
     (let payload = digest_payload m promotions;
          headers = bearer (fmt token);
          u = sendMail_url (fmt (sender m));
          resp = post w u payload headers
      in [Post u payload headers,
          if is_success resp
          then Log SUCCESS ''Free game digest email sent via Microsoft Graph.'' []
          else Log ERROR ''Failed to send free game digest email.''
                 [(''status_code'', JInt (int (status_code resp))),
                  (''content'', JStr (response_text resp))]])"

section \<open>\<open>app/services/notification_service.py\<close>\<close>

text \<open>
  The fields of \<open>MicrosoftMailClient\<close> are plain strings and a list of strings; the three
  that share a name with a field of \<open>MsGraphMailer\<close> carry the prefix \<open>mm_\<close>.
\<close>

record MicrosoftMailClient =
  authority :: string
  mm_client_id :: string
  mm_client_secret :: string
  mm_sender :: string
  recipients :: "string list"

definition MicrosoftMailClient_init ::
  "string \<Rightarrow> string \<Rightarrow> string \<Rightarrow> string \<Rightarrow> string list \<Rightarrow> MicrosoftMailClient" where
  "MicrosoftMailClient_init tid cid secret snd_addr rcpts =
     \<lparr>authority = ''https://login.microsoftonline.com/'' @ tid, mm_client_id = cid,
      mm_client_secret = secret, mm_sender = snd_addr, recipients = rcpts\<rparr>"

text \<open>
  \<open>MicrosoftMailClient._acquire_token\<close>: a fresh application object (\<open>client_app\<close>), one
  client-credentials request, \<open>RuntimeError\<close> when the result has no access token. The
  membership test on \<open>None\<close> is Python's \<open>TypeError\<close>.
\<close>

definition client_app :: "MicrosoftMailClient \<Rightarrow> msal_app" where
  "client_app c =
     \<lparr>app_client_id = Some (mm_client_id c),
      app_client_credential = Some (mm_client_secret c),
      app_authority = Some (authority c)\<rparr>"

definition MicrosoftMailClient_acquire_token ::
  "MicrosoftMailClient \<Rightarrow> world \<Rightarrow> (py_exception + string) \<times> event list" where
  "MicrosoftMailClient_acquire_token c w =
     (let app = client_app c;
          result = acquire_token_for_client w app scopes;
          ev = [TokenForClient app scopes]
      in case result of
           None \<Rightarrow> (Inl TypeError, ev)
         | Some d \<Rightarrow>
             (case map_of d ''access_token'' of
                None \<Rightarrow>
                  (Inl (RuntimeError (''Failed to acquire Microsoft Graph token: ''
                                        @ fmt (map_of d ''error_description''))), ev)
              | Some tok \<Rightarrow> (Inr tok, ev)))"

definition promotion_item :: "PromotionGame \<Rightarrow> string" where
  "promotion_item promotion =
     ''<li><a href=\"'' @ url promotion @ ''\">'' @ title promotion @ ''</a> ''
       @ [CHR 0xE2, CHR 0x80, CHR 0x94] @ '' '' @ description promotion @ ''</li>''"

text \<open>The loop that appends one item per promotion.\<close>

fun append_items :: "string list \<Rightarrow> PromotionGame list \<Rightarrow> string list" where
  "append_items items [] = items"
| "append_items items (promotion # rest) = append_items (items @ [promotion_item promotion]) rest"

text \<open>The three localized literals, as their UTF-8 bytes.\<close>

definition html_head :: string where
  "html_head =
     ''<p>'' @ [CHR 0xE4, CHR 0xBB, CHR 0xA5, CHR 0xE4, CHR 0xB8, CHR 0x8B, CHR 0xE6, CHR 0x98,
               CHR 0xAF, CHR 0xE6, CHR 0x9C, CHR 0xAC, CHR 0xE5, CHR 0x91, CHR 0xA8, CHR 0xE5,
               CHR 0x8F, CHR 0xAF, CHR 0xE9, CHR 0xA2, CHR 0x86, CHR 0xE5, CHR 0x8F, CHR 0x96,
               CHR 0xE7, CHR 0x9A, CHR 0x84]
       @ '' Epic ''
       @ [CHR 0xE5, CHR 0x85, CHR 0x8D, CHR 0xE8, CHR 0xB4, CHR 0xB9, CHR 0xE6, CHR 0xB8,
          CHR 0xB8, CHR 0xE6, CHR 0x88, CHR 0x8F, CHR 0xEF, CHR 0xBC, CHR 0x9A]
       @ ''</p>''"

definition html_foot :: string where
  "html_foot =
     ''<p>'' @ [CHR 0xE9, CHR 0x82, CHR 0xAE, CHR 0xE4, CHR 0xBB, CHR 0xB6, CHR 0xE7, CHR 0x94,
               CHR 0xB1]
       @ '' epic-awesome-gamer ''
       @ [CHR 0xE8, CHR 0x87, CHR 0xAA, CHR 0xE5, CHR 0x8A, CHR 0xA8, CHR 0xE5, CHR 0x8F,
          CHR 0x91, CHR 0xE9, CHR 0x80, CHR 0x81, CHR 0xE3, CHR 0x80, CHR 0x82]
       @ ''</p>''"

definition mail_subject :: string where
  "mail_subject =
     ''Epic '' @ [CHR 0xE5, CHR 0x85, CHR 0x8D, CHR 0xE8, CHR 0xB4, CHR 0xB9, CHR 0xE6, CHR 0xB8,
                 CHR 0xB8, CHR 0xE6, CHR 0x88, CHR 0x8F, CHR 0xE6, CHR 0x9B, CHR 0xB4, CHR 0xE6,
                 CHR 0x96, CHR 0xB0]"

definition html_body :: "PromotionGame list \<Rightarrow> string" where
  "html_body promotions =
     (let items = append_items [] promotions
      in concat [html_head, ''<ul>'', concat items, ''</ul>'', html_foot])"

definition promotions_message :: "MicrosoftMailClient \<Rightarrow> PromotionGame list \<Rightarrow> json" where
  "promotions_message c promotions =
     JObj [(''message'',
            JObj [(''subject'', JStr mail_subject),
                  (''body'', JObj [(''contentType'', JStr ''HTML''),
                                   (''content'', JStr (html_body promotions))]),
                  (''toRecipients'',
                     JList (map (\<lambda>r. JObj [(''emailAddress'', JObj [(''address'', JStr r)])])
                              (recipients c)))])]"

text \<open>
  \<open>MicrosoftMailClient.send_promotions\<close>, for promotions given as a list (the truth test
  of its first line is the emptiness test of a list). \<open>raise_for_status\<close> raises
  \<open>HTTPStatusError\<close>, which holds the response, for every status that is not a success.
\<close>

definition send_promotions ::
  "MicrosoftMailClient \<Rightarrow> world \<Rightarrow> PromotionGame list \<Rightarrow> (py_exception + unit) \<times> event list"
  where
  "send_promotions c w promotions =
     (if promotions = []
      then (Inr (), [Log DEBUG ''No promotions to send, skipping email notification'' []])
      else if recipients c = []
      then (Inr (),
            [Log WARNING
               ''Microsoft email recipients are not configured; skipping free game notification''
               []])
      else (case MicrosoftMailClient_acquire_token c w of
              (Inl e, ev1) \<Rightarrow> (Inl e, ev1)
            | (Inr token, ev1) \<Rightarrow>
                (let message = promotions_message c promotions;
                     u = sendMail_url (mm_sender c);
                     headers = bearer token;
                     resp = post w u message headers;
                     ev2 = [Post u message headers]
                 in if \<not> is_success resp then (Inl (HTTPStatusError resp), ev1 @ ev2)
                    else (Inr (),
                          ev1 @ ev2
                            @ [Log SUCCESS ''Free game notification sent via Microsoft email''
                                 []]))))"

section \<open>Observations on payloads and rendered bodies\<close>

text \<open>The value at a path of member names in a JSON document.\<close>

fun json_path :: "string list \<Rightarrow> json \<Rightarrow> json option" where
  "json_path [] j = Some j"
| "json_path (k # ks) j = (case json_member k j of None \<Rightarrow> None | Some v \<Rightarrow> json_path ks v)"

fun json_keys :: "json \<Rightarrow> string list" where
  "json_keys (JObj kvs) = map fst kvs"
| "json_keys _ = []"

text \<open>The \<open>message\<close> member of a payload.\<close>

definition the_message :: "json \<Rightarrow> json" where
  "the_message p = (case json_member ''message'' p of None \<Rightarrow> JNull | Some v \<Rightarrow> v)"

text \<open>The address of every entry of \<open>message.toRecipients\<close>, in order.\<close>

definition to_addresses :: "json \<Rightarrow> json option list option" where
  "to_addresses p =
     (case json_path [''message'', ''toRecipients''] p of
        Some (JList xs) \<Rightarrow> Some (map (json_path [''emailAddress'', ''address'']) xs)
      | _ \<Rightarrow> None)"

fun is_log :: "event \<Rightarrow> bool" where
  "is_log (Log _ _ _) = True"
| "is_log _ = False"

text \<open>
  Reading a rendered body back. \<open>strip_prefix p s\<close> is the rest of \<open>s\<close> after its prefix
  \<open>p\<close>; \<open>split_at p s\<close> cuts \<open>s\<close> at the first occurrence of \<open>p\<close>, giving the text before
  it and the text after it.
\<close>

fun strip_prefix :: "string \<Rightarrow> string \<Rightarrow> string option" where
  "strip_prefix [] s = Some s"
| "strip_prefix (p # ps) [] = None"
| "strip_prefix (p # ps) (c # cs) = (if p = c then strip_prefix ps cs else None)"

fun split_at :: "string \<Rightarrow> string \<Rightarrow> (string \<times> string) option" where
  "split_at pat [] = (case strip_prefix pat [] of None \<Rightarrow> None | Some r \<Rightarrow> Some ([], r))"
| "split_at pat (c # cs) =
     (case strip_prefix pat (c # cs) of
        Some r \<Rightarrow> Some ([], r)
      | None \<Rightarrow> (case split_at pat cs of None \<Rightarrow> None | Some (b, a) \<Rightarrow> Some (c # b, a)))"

text \<open>
  The first hyperlink of a list item: the value of its \<open>href\<close> attribute and the text it
  shows. \<open>strong_text\<close> is the text a list item shows in bold.
\<close>

definition parse_anchor :: "string \<Rightarrow> (string \<times> string) option" where
  "parse_anchor s =
     (case split_at ''<a href=\"'' s of
        None \<Rightarrow> None
      | Some (_, a) \<Rightarrow>
          (case split_at ''\"'' a of
             None \<Rightarrow> None
           | Some (href, b) \<Rightarrow>
               (case strip_prefix ''>'' b of
                  None \<Rightarrow> None
                | Some c \<Rightarrow>
                    (case split_at ''</a>'' c of
                       None \<Rightarrow> None
                     | Some (txt, _) \<Rightarrow> Some (href, txt)))))"

definition href :: "string \<Rightarrow> string option" where
  "href s = map_option fst (parse_anchor s)"

definition anchor_text :: "string \<Rightarrow> string option" where
  "anchor_text s = map_option snd (parse_anchor s)"

definition strong_text :: "string \<Rightarrow> string option" where
  "strong_text s =
     (case split_at ''<strong>'' s of
        None \<Rightarrow> None
      | Some (_, a) \<Rightarrow> map_option fst (split_at ''</strong>'' a))"

text \<open>
  The list items of a body, in order: the text between each \<open><li>\<close> and the next
  \<open></li>\<close>, scanning from left to right. Every step drops at least the two tags, so the
  scan ends.
\<close>

function li_items :: "string \<Rightarrow> string list" where
  "li_items s =
     (case split_at ''<li>'' s of
        None \<Rightarrow> []
      | Some (_, a) \<Rightarrow>
          (case split_at ''</li>'' a of
             None \<Rightarrow> []
           | Some (item, rest) \<Rightarrow> item # li_items rest))"
  by pat_completeness auto
termination
proof (relation "measure length")
  show "wf (measure length)" by simp
next
  have strip: "strip_prefix p s = Some r \<Longrightarrow> s = p @ r" for p s r
    by (induction p s rule: strip_prefix.induct) (auto split: if_splits)
  have split: "split_at p s = Some (b, a) \<Longrightarrow> s = b @ p @ a" for p s b a
  proof (induction s arbitrary: b)
    case Nil
    then show ?case by (auto split: option.splits dest: strip)
  next
    case (Cons c cs)
    then show ?case by (auto split: option.splits dest: strip)
  qed
  fix s :: string and ba b a ir item rest
  assume "split_at ''<li>'' s = Some ba" "(b, a) = ba"
    "split_at ''</li>'' a = Some ir" "(item, rest) = ir"
  then have "s = b @ ''<li>'' @ a" "a = item @ ''</li>'' @ rest"
    by (auto dest: split)
  then show "(rest, s) \<in> measure length" by simp
qed

declare li_items.simps [simp del]

section \<open>Example inputs\<close>

definition game_a :: PromotionGame where
  "game_a = \<lparr>title = ''Game A'', url = ''http://x/a'', description = ''first''\<rparr>"

definition game_b :: PromotionGame where
  "game_b = \<lparr>title = ''Game B'', url = ''http://x/b'', description = ''second''\<rparr>"

text \<open>A promotion whose title closes the list item it is rendered in and opens another.\<close>

definition injected_game :: PromotionGame where
  "injected_game = \<lparr>title = ''</li><li>'', url = ''http://x/c'', description = ''third''\<rparr>"

text \<open>A world that grants the token \<open>tok\<close> and accepts the mail with status 202.\<close>

definition example_world :: world where
  "example_world =
     \<lparr>acquire_token_silent = (\<lambda>_ _. None),
      acquire_token_for_client = (\<lambda>_ _. Some [(''access_token'', ''tok'')]),
      post = (\<lambda>_ _ _. \<lparr>status_code = 202, response_text = []\<rparr>)\<rparr>"

text \<open>A world whose identity provider answers with an error and no access token.\<close>

definition denying_world :: world where
  "denying_world =
     \<lparr>acquire_token_silent = (\<lambda>_ _. None),
      acquire_token_for_client =
        (\<lambda>_ _. Some [(''error'', ''invalid_client''), (''error_description'', ''bad secret'')]),
      post = (\<lambda>_ _ _. \<lparr>status_code = 202, response_text = []\<rparr>)\<rparr>"

text \<open>A world that grants the token and answers the POST with status 500.\<close>

definition failing_world :: world where
  "failing_world =
     \<lparr>acquire_token_silent = (\<lambda>_ _. None),
      acquire_token_for_client = (\<lambda>_ _. Some [(''access_token'', ''tok'')]),
      post = (\<lambda>_ _ _. \<lparr>status_code = 500, response_text = ''boom''\<rparr>)\<rparr>"

definition example_mailer :: MsGraphMailer where
  "example_mailer =
     MsGraphMailer_init (Some ''id'') (Some ''secret'') (Some ''tenant'') (Some ''s@x'')
       (Some ''r@x'')"

text \<open>The same settings without a sender address.\<close>

definition senderless_mailer :: MsGraphMailer where
  "senderless_mailer =
     MsGraphMailer_init (Some ''id'') (Some ''secret'') (Some ''tenant'') None (Some ''r@x'')"

definition example_client :: MicrosoftMailClient where
  "example_client =
     MicrosoftMailClient_init ''tenant'' ''id'' ''secret'' ''s@x'' [''r1@x'', ''r2@x'']"

definition senderless_client :: MicrosoftMailClient where
  "senderless_client = MicrosoftMailClient_init ''tenant'' ''id'' ''secret'' [] [''r1@x'']"

definition unaddressed_client :: MicrosoftMailClient where
  "unaddressed_client = MicrosoftMailClient_init ''tenant'' ''id'' ''secret'' ''s@x'' []"

text \<open>A world whose token cache already holds a token.\<close>

definition cached_world :: world where
  "cached_world =
     \<lparr>acquire_token_silent = (\<lambda>_ _. Some [(''access_token'', ''cached'')]),
      acquire_token_for_client = (\<lambda>_ _. Some [(''access_token'', ''tok'')]),
      post = (\<lambda>_ _ _. \<lparr>status_code = 202, response_text = []\<rparr>)\<rparr>"

text \<open>The application object \<open>__init__\<close> builds for \<open>example_mailer\<close>.\<close>

definition example_app :: msal_app where
  "example_app =
     \<lparr>app_client_id = Some ''id'', app_client_credential = Some ''secret'',
      app_authority = Some ''https://login.microsoftonline.com/tenant''\<rparr>"

section \<open>Facts about the building blocks\<close>

lemma truthy_simps: "truthy None = False" "truthy (Some s) = (s \<noteq> [])"
  by (simp_all add: truthy_def)

lemma init_fields:
  "client_id (MsGraphMailer_init cid secret tid s r) = cid"
  "client_secret (MsGraphMailer_init cid secret tid s r) = secret"
  "tenant_id (MsGraphMailer_init cid secret tid s r) = tid"
  "sender (MsGraphMailer_init cid secret tid s r) = s"
  "recipient (MsGraphMailer_init cid secret tid s r) = r"
  by (simp_all add: MsGraphMailer_init_def Let_def)

lemma init_client:
  "confidential_client (MsGraphMailer_init cid secret tid s r) \<noteq> None
   \<longleftrightarrow> truthy cid \<and> truthy secret \<and> truthy tid"
  by (simp add: MsGraphMailer_init_def Let_def truthy_simps fmt_def split: option.splits)

lemma is_configured_client: "fst (is_configured m) \<Longrightarrow> confidential_client m \<noteq> None"
  by (simp add: is_configured_def split: if_splits)

lemma is_configured_missing:
  "\<not> (truthy (client_id m) \<and> truthy (client_secret m) \<and> truthy (tenant_id m)
       \<and> truthy (sender m) \<and> truthy (recipient m)) \<Longrightarrow>
   is_configured m
     = (False,
        [Log WARNING not_configured_msg
           [(''missing_configs'', JList (map JStr (missing_configs m)))]])"
  by (auto simp add: is_configured_def)

lemma is_configured_fields:
  "fst (is_configured m) \<Longrightarrow>
   truthy (client_id m) \<and> truthy (client_secret m) \<and> truthy (tenant_id m)
   \<and> truthy (sender m) \<and> truthy (recipient m)"
  by (simp add: is_configured_def split: if_splits)

lemma is_configured_True: "fst (is_configured m) \<Longrightarrow> snd (is_configured m) = []"
  by (simp add: is_configured_def split: if_splits)

lemma is_configured_no_call: "\<not> is_call e \<or> e \<notin> set (snd (is_configured m))"
  by (auto simp add: is_configured_def)

lemma is_configured_example: "fst (is_configured example_mailer)"
  by (simp add: is_configured_def example_mailer_def MsGraphMailer_init_def truthy_simps fmt_def)

subsection \<open>The four ways through \<open>send_free_game_digest\<close>\<close>

lemma digest_unconfigured:
  "\<not> fst (is_configured m) \<Longrightarrow>
   send_free_game_digest m w ps = (Inr (), snd (is_configured m))"
  by (cases "is_configured m") (simp add: send_free_game_digest_def)

lemma digest_raise:
  "fst (is_configured m) \<Longrightarrow> fst (MsGraphMailer_acquire_token m w) = Inl e \<Longrightarrow>
   send_free_game_digest m w ps
     = (Inl e, snd (is_configured m) @ snd (MsGraphMailer_acquire_token m w))"
  by (cases "is_configured m"; cases "MsGraphMailer_acquire_token m w")
     (simp add: send_free_game_digest_def)

lemma digest_no_token:
  "fst (is_configured m) \<Longrightarrow> fst (MsGraphMailer_acquire_token m w) = Inr tok \<Longrightarrow>
   \<not> truthy tok \<Longrightarrow>
   send_free_game_digest m w ps
     = (Inr (), snd (is_configured m) @ snd (MsGraphMailer_acquire_token m w))"
  by (cases "is_configured m"; cases "MsGraphMailer_acquire_token m w")
     (simp add: send_free_game_digest_def)

lemma digest_post:
  "fst (is_configured m) \<Longrightarrow> fst (MsGraphMailer_acquire_token m w) = Inr tok \<Longrightarrow>
   truthy tok \<Longrightarrow>
   send_free_game_digest m w ps
     = (Inr (), snd (is_configured m) @ snd (MsGraphMailer_acquire_token m w)
                  @ post_and_log m w ps tok)"
  by (cases "is_configured m"; cases "MsGraphMailer_acquire_token m w")
     (simp add: send_free_game_digest_def post_and_log_def Let_def)

lemma digest_cases:
  obtains (unconfigured) "\<not> fst (is_configured m)"
  | (raise) e where "fst (is_configured m)" "fst (MsGraphMailer_acquire_token m w) = Inl e"
  | (no_token) tok where "fst (is_configured m)"
      "fst (MsGraphMailer_acquire_token m w) = Inr tok" "\<not> truthy tok"
  | (post) tok where "fst (is_configured m)"
      "fst (MsGraphMailer_acquire_token m w) = Inr tok" "truthy tok"
  by (cases "fst (MsGraphMailer_acquire_token m w)") blast+

subsection \<open>What \<open>MsGraphMailer._acquire_token\<close> does when the client exists\<close>

lemma acquire_token_eq:
  assumes "confidential_client m = Some app"
    and "r = (if truthy_result (acquire_token_silent w app scopes)
              then acquire_token_silent w app scopes
              else acquire_token_for_client w app scopes)"
    and "calls = TokenSilent app scopes
                   # (if truthy_result (acquire_token_silent w app scopes) then []
                      else [TokenForClient app scopes])"
  shows "MsGraphMailer_acquire_token m w
         = (if truthy_result r \<and> has_key ''access_token'' (result_dict r)
            then (Inr (map_of (result_dict r) ''access_token''), calls)
            else (Inr None,
                  calls @ [Log ERROR ''Failed to acquire Microsoft Graph access token.''
                             [(''error'', json_of (get_if r ''error'')),
                              (''description'', json_of (get_if r ''error_description''))]]))"
  using assms by (simp add: MsGraphMailer_acquire_token_def Let_def)

lemma acquire_token_no_post: "Post u p h \<notin> set (snd (MsGraphMailer_acquire_token m w))"
  by (auto simp add: MsGraphMailer_acquire_token_def Let_def split: option.splits if_splits)

lemma acquire_token_no_assert:
  "confidential_client m \<noteq> None \<Longrightarrow> fst (MsGraphMailer_acquire_token m w) \<noteq> Inl AssertionError"
  by (auto simp add: MsGraphMailer_acquire_token_def Let_def split: option.splits prod.splits)

subsection \<open>The ways through \<open>send_promotions\<close>\<close>

lemma client_acquire_token_trace:
  "snd (MicrosoftMailClient_acquire_token c w) = [TokenForClient (client_app c) scopes]"
  by (simp add: MicrosoftMailClient_acquire_token_def Let_def split: option.splits)

lemma promotions_empty:
  "send_promotions c w []
   = (Inr (), [Log DEBUG ''No promotions to send, skipping email notification'' []])"
  by (simp add: send_promotions_def)

lemma promotions_unaddressed:
  "ps \<noteq> [] \<Longrightarrow> recipients c = [] \<Longrightarrow>
   send_promotions c w ps
   = (Inr (),
      [Log WARNING
         ''Microsoft email recipients are not configured; skipping free game notification'' []])"
  by (simp add: send_promotions_def)

lemma promotions_raise:
  "ps \<noteq> [] \<Longrightarrow> recipients c \<noteq> [] \<Longrightarrow> fst (MicrosoftMailClient_acquire_token c w) = Inl e \<Longrightarrow>
   send_promotions c w ps = (Inl e, [TokenForClient (client_app c) scopes])"
  using client_acquire_token_trace [of c w]
  by (cases "MicrosoftMailClient_acquire_token c w") (simp add: send_promotions_def)

lemma promotions_post:
  assumes "ps \<noteq> []" "recipients c \<noteq> []" "fst (MicrosoftMailClient_acquire_token c w) = Inr tok"
  shows "send_promotions c w ps
   = (if is_success (post w (sendMail_url (mm_sender c)) (promotions_message c ps) (bearer tok))
      then (Inr (),
            [TokenForClient (client_app c) scopes,
             Post (sendMail_url (mm_sender c)) (promotions_message c ps) (bearer tok),
             Log SUCCESS ''Free game notification sent via Microsoft email'' []])
      else (Inl (HTTPStatusError
                   (post w (sendMail_url (mm_sender c)) (promotions_message c ps) (bearer tok))),
            [TokenForClient (client_app c) scopes,
             Post (sendMail_url (mm_sender c)) (promotions_message c ps) (bearer tok)]))"
  using assms client_acquire_token_trace [of c w]
  by (cases "MicrosoftMailClient_acquire_token c w") (simp add: send_promotions_def Let_def)

lemma promotions_cases:
  obtains (empty) "ps = []"
  | (unaddressed) "ps \<noteq> []" "recipients c = []"
  | (raise) e where "ps \<noteq> []" "recipients c \<noteq> []"
      "fst (MicrosoftMailClient_acquire_token c w) = Inl e"
  | (post) tok where "ps \<noteq> []" "recipients c \<noteq> []"
      "fst (MicrosoftMailClient_acquire_token c w) = Inr tok"
  by (cases "fst (MicrosoftMailClient_acquire_token c w)") blast+

subsection \<open>The example inputs, evaluated\<close>

lemma example_mailer_client: "confidential_client example_mailer = Some example_app"
  by (simp add: example_mailer_def MsGraphMailer_init_def truthy_simps fmt_def example_app_def)

lemma example_mailer_fields:
  "sender example_mailer = Some ''s@x''" "recipient example_mailer = Some ''r@x''"
  by (simp_all add: example_mailer_def init_fields)

lemma example_worlds:
  "acquire_token_silent example_world a sc = None"
  "acquire_token_for_client example_world a sc = Some [(''access_token'', ''tok'')]"
  "post example_world u p h = \<lparr>status_code = 202, response_text = []\<rparr>"
  "acquire_token_silent denying_world a sc = None"
  "acquire_token_for_client denying_world a sc
     = Some [(''error'', ''invalid_client''), (''error_description'', ''bad secret'')]"
  "acquire_token_silent failing_world a sc = None"
  "acquire_token_for_client failing_world a sc = Some [(''access_token'', ''tok'')]"
  "post failing_world u p h = \<lparr>status_code = 500, response_text = ''boom''\<rparr>"
  "acquire_token_silent cached_world a sc = Some [(''access_token'', ''cached'')]"
  by (simp_all add: example_world_def denying_world_def failing_world_def cached_world_def)

lemma example_acquire:
  "MsGraphMailer_acquire_token example_mailer example_world
   = (Inr (Some ''tok''), [TokenSilent example_app scopes, TokenForClient example_app scopes])"
  "MsGraphMailer_acquire_token example_mailer failing_world
   = (Inr (Some ''tok''), [TokenSilent example_app scopes, TokenForClient example_app scopes])"
  "MsGraphMailer_acquire_token example_mailer cached_world
   = (Inr (Some ''cached''), [TokenSilent example_app scopes])"
  by (simp_all add: acquire_token_eq [OF example_mailer_client refl refl] example_worlds
        truthy_result_def has_key_def result_dict_def)

lemma example_client_acquire:
  "fst (MicrosoftMailClient_acquire_token c example_world) = Inr ''tok''"
  "fst (MicrosoftMailClient_acquire_token c failing_world) = Inr ''tok''"
  "fst (MicrosoftMailClient_acquire_token c cached_world) = Inr ''tok''"
  by (simp_all add: MicrosoftMailClient_acquire_token_def example_worlds cached_world_def)

lemma example_digest:
  "send_free_game_digest example_mailer example_world ps
   = (Inr (),
      [TokenSilent example_app scopes, TokenForClient example_app scopes,
       Post (sendMail_url ''s@x'') (digest_payload example_mailer ps) (bearer ''tok''),
       Log SUCCESS ''Free game digest email sent via Microsoft Graph.'' []])"
  by (simp add: digest_post [OF is_configured_example, of example_world "Some ''tok''"]
        example_acquire is_configured_True [OF is_configured_example] truthy_simps
        post_and_log_def example_mailer_fields fmt_def example_worlds is_success_def)

lemma failing_digest:
  "send_free_game_digest example_mailer failing_world ps
   = (Inr (),
      [TokenSilent example_app scopes, TokenForClient example_app scopes,
       Post (sendMail_url ''s@x'') (digest_payload example_mailer ps) (bearer ''tok''),
       Log ERROR ''Failed to send free game digest email.''
         [(''status_code'', JInt 500), (''content'', JStr ''boom'')]])"
  by (simp add: digest_post [OF is_configured_example, of failing_world "Some ''tok''"]
        example_acquire is_configured_True [OF is_configured_example] truthy_simps
        post_and_log_def example_mailer_fields fmt_def example_worlds is_success_def)

lemma example_client_fields:
  "mm_sender example_client = ''s@x''" "recipients example_client = [''r1@x'', ''r2@x'']"
  "mm_sender senderless_client = []" "recipients senderless_client = [''r1@x'']"
  "recipients unaddressed_client = []"
  by (simp_all add: example_client_def senderless_client_def unaddressed_client_def
        MicrosoftMailClient_init_def)

lemma example_promotions:
  "send_promotions example_client example_world [game_a]
   = (Inr (),
      [TokenForClient (client_app example_client) scopes,
       Post (sendMail_url ''s@x'') (promotions_message example_client [game_a]) (bearer ''tok''),
       Log SUCCESS ''Free game notification sent via Microsoft email'' []])"
  "send_promotions senderless_client example_world [game_a]
   = (Inr (),
      [TokenForClient (client_app senderless_client) scopes,
       Post (sendMail_url []) (promotions_message senderless_client [game_a]) (bearer ''tok''),
       Log SUCCESS ''Free game notification sent via Microsoft email'' []])"
  "send_promotions example_client failing_world [game_a]
   = (Inl (HTTPStatusError \<lparr>status_code = 500, response_text = ''boom''\<rparr>),
      [TokenForClient (client_app example_client) scopes,
       Post (sendMail_url ''s@x'') (promotions_message example_client [game_a]) (bearer ''tok'')])"
  by (simp_all add: promotions_post [where tok = "''tok''"] example_client_acquire
        example_client_fields example_worlds is_success_def)

lemma senderless_mailer_fields:
  "client_id senderless_mailer = Some ''id''" "client_secret senderless_mailer = Some ''secret''"
  "tenant_id senderless_mailer = Some ''tenant''" "sender senderless_mailer = None"
  "recipient senderless_mailer = Some ''r@x''"
  by (simp_all add: senderless_mailer_def init_fields)

subsection \<open>The one POST of a run\<close>

lemma post_and_log_Post:
  "Post u p h \<in> set (post_and_log m w ps tok) \<Longrightarrow>
   u = sendMail_url (fmt (sender m)) \<and> p = digest_payload m ps \<and> h = bearer (fmt tok)"
  by (auto simp add: post_and_log_def Let_def split: if_splits)

lemma digest_Post:
  assumes "Post u p h \<in> set (snd (send_free_game_digest m w ps))"
  obtains tok where "fst (is_configured m)" "fst (MsGraphMailer_acquire_token m w) = Inr tok"
    "truthy tok" "u = sendMail_url (fmt (sender m))" "p = digest_payload m ps"
    "h = bearer (fmt tok)"
proof (cases rule: digest_cases [where m = m and w = w])
  case unconfigured
  with assms is_configured_no_call [of "Post u p h" m] show ?thesis
    by (simp add: digest_unconfigured)
next
  case (raise e)
  with assms is_configured_no_call [of "Post u p h" m] acquire_token_no_post [of u p h m w]
  show ?thesis by (simp add: digest_raise)
next
  case (no_token tok)
  with assms is_configured_no_call [of "Post u p h" m] acquire_token_no_post [of u p h m w]
  show ?thesis by (simp add: digest_no_token)
next
  case (post tok)
  with assms is_configured_no_call [of "Post u p h" m] acquire_token_no_post [of u p h m w]
  have "Post u p h \<in> set (post_and_log m w ps tok)" by (simp add: digest_post)
  from post_and_log_Post [OF this] post that show ?thesis by blast
qed

lemma promotions_Post:
  assumes "Post u p h \<in> set (snd (send_promotions c w ps))"
  obtains tok where "ps \<noteq> []" "recipients c \<noteq> []"
    "fst (MicrosoftMailClient_acquire_token c w) = Inr tok"
    "u = sendMail_url (mm_sender c)" "p = promotions_message c ps" "h = bearer tok"
proof (cases rule: promotions_cases [where ps = ps and c = c and w = w])
  case empty
  with assms show ?thesis by (simp add: promotions_empty)
next
  case unaddressed
  with assms show ?thesis by (simp add: promotions_unaddressed)
next
  case (raise e)
  with assms show ?thesis by (simp add: promotions_raise)
next
  case (post tok)
  with assms have "u = sendMail_url (mm_sender c) \<and> p = promotions_message c ps \<and> h = bearer tok"
    by (simp add: promotions_post split: if_splits)
  with post that show ?thesis by blast
qed

subsection \<open>Scanning a rendered body\<close>

lemma split_at_free:
  "p0 \<notin> set t \<Longrightarrow>
   split_at (p0 # p) (t @ s) = map_option (\<lambda>(b, a). (t @ b, a)) (split_at (p0 # p) s)"
proof (induction t)
  case Nil
  show ?case by (simp add: option.map_ident)
next
  case (Cons c t)
  then show ?case by (cases "split_at (p0 # p) s") auto
qed

lemma li_items_none: "split_at ''<li>'' s = None \<Longrightarrow> li_items s = []"
  by (subst li_items.simps) simp

lemma li_items_skip:
  assumes "split_at ''<li>'' (h @ s) = map_option (\<lambda>(b, a). (h @ b, a)) (split_at ''<li>'' s)"
  shows "li_items (h @ s) = li_items s"
proof (cases "split_at ''<li>'' s")
  case None
  with assms show ?thesis by (simp add: li_items_none)
next
  case (Some ba)
  with assms show ?thesis
    by (cases ba) (simp add: li_items.simps [of "h @ s"] li_items.simps [of s])
qed

lemma li_items_game_item:
  assumes "CHR ''<'' \<notin> set (title g)" "CHR ''<'' \<notin> set (url g)"
  shows "li_items (game_item g @ rest)
         = (''<strong>'' @ title g @ ''</strong> - <a href=\"'' @ url g @ ''\">'' @ url g @ ''</a>'')
             # li_items rest"
proof -
  have "split_at ''</li>''
          (''<strong>'' @ title g @ ''</strong> - <a href=\"'' @ url g @ ''\">'' @ url g @ ''</a>''
             @ ''</li>'' @ rest)
        = Some (''<strong>'' @ title g @ ''</strong> - <a href=\"'' @ url g @ ''\">'' @ url g
                  @ ''</a>'', rest)"
    using assms by (simp add: split_at_free)
  then show ?thesis
    by (subst li_items.simps) (simp add: game_item_def)
qed

lemma li_items_games:
  assumes "\<forall>g \<in> set ps. CHR ''<'' \<notin> set (title g) \<and> CHR ''<'' \<notin> set (url g)"
  shows "li_items (concat (map game_item ps) @ ''</ul>'')
         = map (\<lambda>g. ''<strong>'' @ title g @ ''</strong> - <a href=\"'' @ url g @ ''\">''
                        @ url g @ ''</a>'') ps"
  using assms
proof (induction ps)
  case Nil
  show ?case by (simp add: li_items_none)
next
  case (Cons g ps)
  then show ?case by (simp add: li_items_game_item)
qed

lemma li_items_build_body:
  assumes "\<forall>g \<in> set ps. CHR ''<'' \<notin> set (title g) \<and> CHR ''<'' \<notin> set (url g)"
  shows "li_items (build_body ps)
         = map (\<lambda>g. ''<strong>'' @ title g @ ''</strong> - <a href=\"'' @ url g @ ''\">''
                        @ url g @ ''</a>'') ps"
proof (cases "ps = []")
  case True
  then show ?thesis by (simp add: build_body_def li_items_none)
next
  case False
  have "li_items (''<p>Here are the current free games on Epic Store:</p><ul>''
                    @ (concat (map game_item ps) @ ''</ul>''))
        = li_items (concat (map game_item ps) @ ''</ul>'')"
    by (rule li_items_skip)
       (cases "split_at ''<li>'' (concat (map game_item ps) @ ''</ul>'')"; simp split: prod.splits)
  with False show ?thesis
    by (simp add: build_body_def li_items_games [OF assms])
qed

lemma strong_text_game:
  "CHR ''<'' \<notin> set t \<Longrightarrow>
   strong_text (''<strong>'' @ t @ ''</strong> - <a href=\"'' @ u @ ''\">'' @ u @ ''</a>'') = Some t"
  by (simp add: strong_text_def split_at_free)

lemma parse_anchor_game:
  "CHR ''<'' \<notin> set t \<Longrightarrow> CHR ''<'' \<notin> set u \<Longrightarrow> CHR 0x22 \<notin> set u \<Longrightarrow>
   parse_anchor (''<strong>'' @ t @ ''</strong> - <a href=\"'' @ u @ ''\">'' @ u @ ''</a>'')
     = Some (u, u)"
  by (simp add: parse_anchor_def split_at_free)

lemma href_game:
  "CHR ''<'' \<notin> set t \<Longrightarrow> CHR ''<'' \<notin> set u \<Longrightarrow> CHR 0x22 \<notin> set u \<Longrightarrow>
   href (''<strong>'' @ t @ ''</strong> - <a href=\"'' @ u @ ''\">'' @ u @ ''</a>'') = Some u"
  using parse_anchor_game [of t u] by (simp add: href_def)

lemma append_items_map: "append_items acc ps = acc @ map promotion_item ps"
  by (induction ps arbitrary: acc) simp_all

lemma li_items_promotion_item:
  assumes "CHR ''<'' \<notin> set (title g)" "CHR ''<'' \<notin> set (url g)"
    "CHR ''<'' \<notin> set (description g)"
  shows "li_items (promotion_item g @ rest)
         = (''<a href=\"'' @ url g @ ''\">'' @ title g @ ''</a> '' @ [CHR 0xE2, CHR 0x80, CHR 0x94]
              @ '' '' @ description g)
             # li_items rest"
proof -
  have "split_at ''</li>''
          (''<a href=\"'' @ url g @ ''\">'' @ title g @ ''</a> '' @ [CHR 0xE2, CHR 0x80, CHR 0x94]
              @ '' '' @ description g @ ''</li>'' @ rest)
        = Some (''<a href=\"'' @ url g @ ''\">'' @ title g @ ''</a> ''
                  @ [CHR 0xE2, CHR 0x80, CHR 0x94] @ '' '' @ description g, rest)"
    using assms by (simp add: split_at_free)
  then show ?thesis
    by (subst li_items.simps) (simp add: promotion_item_def)
qed

lemma li_items_promotions:
  assumes "\<forall>g \<in> set ps. CHR ''<'' \<notin> set (title g) \<and> CHR ''<'' \<notin> set (url g)
             \<and> CHR ''<'' \<notin> set (description g)"
  shows "li_items (concat (map promotion_item ps) @ ''</ul>'' @ html_foot)
         = map (\<lambda>g. ''<a href=\"'' @ url g @ ''\">'' @ title g @ ''</a> ''
                        @ [CHR 0xE2, CHR 0x80, CHR 0x94] @ '' '' @ description g) ps"
  using assms
proof (induction ps)
  case Nil
  show ?case by (simp add: li_items_none html_foot_def)
next
  case (Cons g ps)
  then show ?case by (simp add: li_items_promotion_item)
qed

lemma li_items_html_body:
  assumes "\<forall>g \<in> set ps. CHR ''<'' \<notin> set (title g) \<and> CHR ''<'' \<notin> set (url g)
             \<and> CHR ''<'' \<notin> set (description g)"
  shows "li_items (html_body ps)
         = map (\<lambda>g. ''<a href=\"'' @ url g @ ''\">'' @ title g @ ''</a> ''
                        @ [CHR 0xE2, CHR 0x80, CHR 0x94] @ '' '' @ description g) ps"
proof -
  let ?X = "concat (map promotion_item ps) @ ''</ul>'' @ html_foot"
  have skip: "li_items ((html_head @ ''<ul>'') @ ?X) = li_items ?X"
    by (rule li_items_skip)
       (cases "split_at ''<li>'' ?X"; simp add: html_head_def split: prod.splits)
  have body: "html_body ps = (html_head @ ''<ul>'') @ ?X"
    by (simp add: html_body_def append_items_map)
  show ?thesis
    by (simp only: body skip li_items_promotions [OF assms])
qed

lemma parse_anchor_promotion:
  "CHR ''<'' \<notin> set t \<Longrightarrow> CHR 0x22 \<notin> set u \<Longrightarrow>
   parse_anchor (''<a href=\"'' @ u @ ''\">'' @ t @ ''</a> '' @ [CHR 0xE2, CHR 0x80, CHR 0x94]
                   @ '' '' @ d)
     = Some (u, t)"
  by (simp add: parse_anchor_def split_at_free)

lemma href_promotion:
  "CHR ''<'' \<notin> set t \<Longrightarrow> CHR 0x22 \<notin> set u \<Longrightarrow>
   href (''<a href=\"'' @ u @ ''\">'' @ t @ ''</a> '' @ [CHR 0xE2, CHR 0x80, CHR 0x94] @ '' '' @ d)
     = Some u"
  using parse_anchor_promotion [of t u d] by (simp add: href_def)

lemma anchor_text_promotion:
  "CHR ''<'' \<notin> set t \<Longrightarrow> CHR 0x22 \<notin> set u \<Longrightarrow>
   anchor_text (''<a href=\"'' @ u @ ''\">'' @ t @ ''</a> '' @ [CHR 0xE2, CHR 0x80, CHR 0x94]
                  @ '' '' @ d)
     = Some t"
  using parse_anchor_promotion [of t u d] by (simp add: anchor_text_def)

section \<open>The body renderers\<close>

text \<open>
  Claim C6, as the code has it. Neither renderer escapes what it interpolates, so a title
  that carries markup changes the list. For promotions whose title and url hold no
  \<open><\<close> and whose url holds no double quote, the body of \<open>_build_body\<close> has one list item per
  promotion, in input order, showing the title in bold and linking to the url. For
  promotions whose title, url and description hold no \<open><\<close> and whose url holds no double
  quote, the body built by \<open>send_promotions\<close> has one list item per promotion, in input
  order, each a link to the url that shows the title.
\<close>

theorem rendered_list_items:
  "((\<forall>g \<in> set ps. CHR ''<'' \<notin> set (title g) \<and> CHR ''<'' \<notin> set (url g)
        \<and> CHR 0x22 \<notin> set (url g)) \<longrightarrow>
      length (li_items (build_body ps)) = length ps
      \<and> map strong_text (li_items (build_body ps)) = map (\<lambda>g. Some (title g)) ps
      \<and> map href (li_items (build_body ps)) = map (\<lambda>g. Some (url g)) ps)
   \<and> ((\<forall>g \<in> set ps. CHR ''<'' \<notin> set (title g) \<and> CHR ''<'' \<notin> set (url g)
          \<and> CHR 0x22 \<notin> set (url g) \<and> CHR ''<'' \<notin> set (description g)) \<longrightarrow>
        length (li_items (html_body ps)) = length ps
        \<and> map anchor_text (li_items (html_body ps)) = map (\<lambda>g. Some (title g)) ps
        \<and> map href (li_items (html_body ps)) = map (\<lambda>g. Some (url g)) ps)"
proof (intro conjI impI)
  assume a: "\<forall>g \<in> set ps. CHR ''<'' \<notin> set (title g) \<and> CHR ''<'' \<notin> set (url g)
    \<and> CHR 0x22 \<notin> set (url g)"
  then have items: "li_items (build_body ps)
      = map (\<lambda>g. ''<strong>'' @ title g @ ''</strong> - <a href=\"'' @ url g @ ''\">''
                     @ url g @ ''</a>'') ps"
    by (intro li_items_build_body) blast
  show "length (li_items (build_body ps)) = length ps"
    by (simp only: items length_map)
  have "\<And>g. g \<in> set ps \<Longrightarrow>
      strong_text (''<strong>'' @ title g @ ''</strong> - <a href=\"'' @ url g @ ''\">''
                     @ url g @ ''</a>'') = Some (title g)"
    using a by (blast intro: strong_text_game)
  then show "map strong_text (li_items (build_body ps)) = map (\<lambda>g. Some (title g)) ps"
    unfolding items map_map o_def by (rule map_cong [OF refl])
  have "\<And>g. g \<in> set ps \<Longrightarrow>
      href (''<strong>'' @ title g @ ''</strong> - <a href=\"'' @ url g @ ''\">''
              @ url g @ ''</a>'') = Some (url g)"
    using a by (blast intro: href_game)
  then show "map href (li_items (build_body ps)) = map (\<lambda>g. Some (url g)) ps"
    unfolding items map_map o_def by (rule map_cong [OF refl])
next
  assume a: "\<forall>g \<in> set ps. CHR ''<'' \<notin> set (title g) \<and> CHR ''<'' \<notin> set (url g)
    \<and> CHR 0x22 \<notin> set (url g) \<and> CHR ''<'' \<notin> set (description g)"
  then have items: "li_items (html_body ps)
      = map (\<lambda>g. ''<a href=\"'' @ url g @ ''\">'' @ title g @ ''</a> ''
                     @ [CHR 0xE2, CHR 0x80, CHR 0x94] @ '' '' @ description g) ps"
    by (intro li_items_html_body) blast
  show "length (li_items (html_body ps)) = length ps"
    by (simp only: items length_map)
  have "\<And>g. g \<in> set ps \<Longrightarrow>
      anchor_text (''<a href=\"'' @ url g @ ''\">'' @ title g @ ''</a> ''
                     @ [CHR 0xE2, CHR 0x80, CHR 0x94] @ '' '' @ description g) = Some (title g)"
    using a by (blast intro: anchor_text_promotion)
  then show "map anchor_text (li_items (html_body ps)) = map (\<lambda>g. Some (title g)) ps"
    unfolding items map_map o_def by (rule map_cong [OF refl])
  have "\<And>g. g \<in> set ps \<Longrightarrow>
      href (''<a href=\"'' @ url g @ ''\">'' @ title g @ ''</a> ''
              @ [CHR 0xE2, CHR 0x80, CHR 0x94] @ '' '' @ description g) = Some (url g)"
    using a by (blast intro: href_promotion)
  then show "map href (li_items (html_body ps)) = map (\<lambda>g. Some (url g)) ps"
    unfolding items map_map o_def by (rule map_cong [OF refl])
qed

theorem rendered_list_items_two_games:
  "CHR ''<'' \<notin> set (title game_a) \<and> CHR ''<'' \<notin> set (url game_a)
   \<and> CHR 0x22 \<notin> set (url game_a) \<and> CHR ''<'' \<notin> set (description game_a)
   \<and> CHR ''<'' \<notin> set (title game_b) \<and> CHR ''<'' \<notin> set (url game_b)
   \<and> CHR 0x22 \<notin> set (url game_b) \<and> CHR ''<'' \<notin> set (description game_b)
   \<and> length (li_items (build_body [game_a, game_b])) = 2
   \<and> map strong_text (li_items (build_body [game_a, game_b])) = [Some ''Game A'', Some ''Game B'']
   \<and> map href (li_items (build_body [game_a, game_b])) = [Some ''http://x/a'', Some ''http://x/b'']
   \<and> length (li_items (html_body [game_a, game_b])) = 2
   \<and> map anchor_text (li_items (html_body [game_a, game_b])) = [Some ''Game A'', Some ''Game B'']
   \<and> map href (li_items (html_body [game_a, game_b])) = [Some ''http://x/a'', Some ''http://x/b'']"
proof -
  have h: "\<forall>g \<in> set [game_a, game_b]. CHR ''<'' \<notin> set (title g) \<and> CHR ''<'' \<notin> set (url g)
       \<and> CHR 0x22 \<notin> set (url g) \<and> CHR ''<'' \<notin> set (description g)"
    by (simp add: game_a_def game_b_def)
  then have h': "\<forall>g \<in> set [game_a, game_b]. CHR ''<'' \<notin> set (title g)
       \<and> CHR ''<'' \<notin> set (url g) \<and> CHR 0x22 \<notin> set (url g)"
    by simp
  from rendered_list_items [of "[game_a, game_b]"] h h'
  have "length (li_items (build_body [game_a, game_b])) = length [game_a, game_b]
      \<and> map strong_text (li_items (build_body [game_a, game_b]))
          = map (\<lambda>g. Some (title g)) [game_a, game_b]
      \<and> map href (li_items (build_body [game_a, game_b]))
          = map (\<lambda>g. Some (url g)) [game_a, game_b]
      \<and> length (li_items (html_body [game_a, game_b])) = length [game_a, game_b]
      \<and> map anchor_text (li_items (html_body [game_a, game_b]))
          = map (\<lambda>g. Some (title g)) [game_a, game_b]
      \<and> map href (li_items (html_body [game_a, game_b]))
          = map (\<lambda>g. Some (url g)) [game_a, game_b]"
    by blast
  then show ?thesis
    using h by (simp add: game_a_def game_b_def)
qed

theorem injected_title_adds_list_item:
  "length (li_items (build_body [injected_game])) = 2
   \<and> length (li_items (html_body [injected_game])) = 2"
  by code_simp

text \<open>
  Claim C7. For the empty sequence of promotions \<open>_build_body\<close> returns the fixed sentence
  that no free games were detected, a paragraph: not the empty string, and with no list
  item in it.
\<close>

theorem build_body_empty:
  "build_body [] = ''<p>No free games detected from Epic Store at this time.</p>''
   \<and> build_body [] \<noteq> []
   \<and> li_items (build_body []) = []"
  by (simp add: build_body_def li_items_none)

section \<open>The configuration check\<close>

text \<open>
  Claim C9. For the mailer built from any five settings, \<open>is_configured\<close> returns true
  exactly when client id, client secret, tenant id, sender and recipient are all present
  and non-empty. It is a total function: it returns and never raises. When it returns
  false it writes one warning whose \<open>missing_configs\<close> holds the name of each setting that
  is absent or empty, each once, and no other name.
\<close>

theorem is_configured_exact:
  "(fst (is_configured (MsGraphMailer_init cid secret tid s r))
      \<longleftrightarrow> truthy cid \<and> truthy secret \<and> truthy tid \<and> truthy s \<and> truthy r)
   \<and> (\<not> fst (is_configured (MsGraphMailer_init cid secret tid s r)) \<longrightarrow>
        (\<exists>names.
           snd (is_configured (MsGraphMailer_init cid secret tid s r))
             = [Log WARNING not_configured_msg [(''missing_configs'', JList (map JStr names))]]
           \<and> (''MS_CLIENT_ID'' \<in> set names \<longleftrightarrow> \<not> truthy cid)
           \<and> (''MS_CLIENT_SECRET'' \<in> set names \<longleftrightarrow> \<not> truthy secret)
           \<and> (''MS_TENANT_ID'' \<in> set names \<longleftrightarrow> \<not> truthy tid)
           \<and> (''MS_SENDER_ADDRESS'' \<in> set names \<longleftrightarrow> \<not> truthy s)
           \<and> (''MS_RECIPIENT_ADDRESS'' \<in> set names \<longleftrightarrow> \<not> truthy r)
           \<and> set names \<subseteq> {''MS_CLIENT_ID'', ''MS_CLIENT_SECRET'', ''MS_TENANT_ID'',
                            ''MS_SENDER_ADDRESS'', ''MS_RECIPIENT_ADDRESS''}
           \<and> distinct names))"
proof -
  let ?m = "MsGraphMailer_init cid secret tid s r"
  note f = init_fields [of cid secret tid s r]
  have c: "confidential_client ?m \<noteq> None \<longleftrightarrow> truthy cid \<and> truthy secret \<and> truthy tid"
    by (rule init_client)
  have 1: "fst (is_configured ?m)
      \<longleftrightarrow> truthy cid \<and> truthy secret \<and> truthy tid \<and> truthy s \<and> truthy r"
    using c by (auto simp add: is_configured_def f)
  have 2: "\<not> fst (is_configured ?m) \<Longrightarrow>
     snd (is_configured ?m)
       = [Log WARNING not_configured_msg
            [(''missing_configs'', JList (map JStr (missing_configs ?m)))]]"
    using c by (auto simp add: is_configured_def f)
  have 3: "(''MS_CLIENT_ID'' \<in> set (missing_configs ?m) \<longleftrightarrow> \<not> truthy cid)"
     "(''MS_CLIENT_SECRET'' \<in> set (missing_configs ?m) \<longleftrightarrow> \<not> truthy secret)"
     "(''MS_TENANT_ID'' \<in> set (missing_configs ?m) \<longleftrightarrow> \<not> truthy tid)"
     "(''MS_SENDER_ADDRESS'' \<in> set (missing_configs ?m) \<longleftrightarrow> \<not> truthy s)"
     "(''MS_RECIPIENT_ADDRESS'' \<in> set (missing_configs ?m) \<longleftrightarrow> \<not> truthy r)"
    by (simp_all add: missing_configs_def config_table_def f)
  have 4: "set (missing_configs ?m) \<subseteq> {''MS_CLIENT_ID'', ''MS_CLIENT_SECRET'', ''MS_TENANT_ID'',
                            ''MS_SENDER_ADDRESS'', ''MS_RECIPIENT_ADDRESS''}"
    by (auto simp add: missing_configs_def config_table_def f)
  have 5: "distinct (missing_configs ?m)"
    by (simp add: missing_configs_def config_table_def f)
  show ?thesis using 1 2 3 4 5 by blast
qed

theorem is_configured_exact_witness:
  "\<not> fst (is_configured (MsGraphMailer_init (Some ''id'') (Some []) None (Some ''s@x'') (Some ''r@x'')))
   \<and> (\<exists>names.
         snd (is_configured
                (MsGraphMailer_init (Some ''id'') (Some []) None (Some ''s@x'') (Some ''r@x'')))
           = [Log WARNING not_configured_msg [(''missing_configs'', JList (map JStr names))]]
         \<and> set names = {''MS_CLIENT_SECRET'', ''MS_TENANT_ID''})
   \<and> fst (is_configured
            (MsGraphMailer_init (Some ''id'') (Some ''secret'') (Some ''tenant'') (Some ''s@x'')
               (Some ''r@x'')))"
proof -
  have h: "\<not> fst (is_configured
                    (MsGraphMailer_init (Some ''id'') (Some []) None (Some ''s@x'') (Some ''r@x'')))"
    by (simp add: is_configured_def init_fields truthy_simps)
  from is_configured_exact [of "Some ''id''" "Some []" None "Some ''s@x''" "Some ''r@x''"] h
  obtain names where n:
    "snd (is_configured
            (MsGraphMailer_init (Some ''id'') (Some []) None (Some ''s@x'') (Some ''r@x'')))
       = [Log WARNING not_configured_msg [(''missing_configs'', JList (map JStr names))]]"
    "''MS_CLIENT_ID'' \<in> set names \<longleftrightarrow> \<not> truthy (Some ''id'')"
    "''MS_CLIENT_SECRET'' \<in> set names \<longleftrightarrow> \<not> truthy (Some [])"
    "''MS_TENANT_ID'' \<in> set names \<longleftrightarrow> \<not> truthy None"
    "''MS_SENDER_ADDRESS'' \<in> set names \<longleftrightarrow> \<not> truthy (Some ''s@x'')"
    "''MS_RECIPIENT_ADDRESS'' \<in> set names \<longleftrightarrow> \<not> truthy (Some ''r@x'')"
    "set names \<subseteq> {''MS_CLIENT_ID'', ''MS_CLIENT_SECRET'', ''MS_TENANT_ID'',
                    ''MS_SENDER_ADDRESS'', ''MS_RECIPIENT_ADDRESS''}"
    by blast
  from n(2-7) have "set names = {''MS_CLIENT_SECRET'', ''MS_TENANT_ID''}"
    by (auto simp add: truthy_simps)
  moreover have "fst (is_configured
            (MsGraphMailer_init (Some ''id'') (Some ''secret'') (Some ''tenant'') (Some ''s@x'')
               (Some ''r@x'')))"
    using is_configured_exact [of "Some ''id''" "Some ''secret''" "Some ''tenant''" "Some ''s@x''"
        "Some ''r@x''"]
    by (simp add: truthy_simps)
  ultimately show ?thesis using h n(1) by blast
qed

section \<open>The assertion of \<open>_acquire_token\<close>\<close>

text \<open>
  Claim C10. Whenever \<open>is_configured\<close> returns true the confidential client is not \<open>None\<close>,
  and \<open>send_free_game_digest\<close> calls \<open>_acquire_token\<close> only after \<open>is_configured\<close> has returned
  true: no run of \<open>send_free_game_digest\<close> ends in the \<open>AssertionError\<close> of \<open>_acquire_token\<close>,
  whatever the state of the mailer, the world and the promotions.
\<close>

theorem assertion_never_fails:
  "(fst (is_configured m) \<longrightarrow> confidential_client m \<noteq> None)
   \<and> fst (send_free_game_digest m w promotions) \<noteq> Inl AssertionError"
proof (cases rule: digest_cases [where m = m and w = w])
  case unconfigured
  then show ?thesis by (simp add: digest_unconfigured)
next
  case (raise e)
  from raise(1) have "confidential_client m \<noteq> None" by (rule is_configured_client)
  then have "e \<noteq> AssertionError" using acquire_token_no_assert [of m w] raise(2) by auto
  with raise show ?thesis by (simp add: digest_raise is_configured_client)
next
  case (no_token tok)
  then show ?thesis by (simp add: digest_no_token is_configured_client)
next
  case (post tok)
  then show ?thesis by (simp add: digest_post is_configured_client)
qed

theorem assertion_never_fails_witness:
  "fst (is_configured example_mailer) \<and> confidential_client example_mailer \<noteq> None
   \<and> fst (send_free_game_digest example_mailer example_world []) \<noteq> Inl AssertionError"
  using assertion_never_fails [of example_mailer example_world "[]"] is_configured_example
  by blast

section \<open>The two send operations\<close>

text \<open>
  Claim C1, as the code has it. \<open>send_free_game_digest\<close> checks all five settings: when one
  of client id, client secret, tenant id, sender and recipient is absent or empty, it makes
  no outbound call, writes the warning that the mailer is not fully configured with the
  names of the missing settings, and returns. \<open>send_promotions\<close> checks the recipients only:
  when the list of recipients is empty it makes no outbound call and returns, and for a
  non-empty sequence of promotions it writes the warning that the recipients are not
  configured. It does not look at tenant id, client id, client secret or sender.
\<close>

theorem missing_setting_no_call:
  "(\<not> (truthy (client_id m) \<and> truthy (client_secret m) \<and> truthy (tenant_id m)
        \<and> truthy (sender m) \<and> truthy (recipient m)) \<longrightarrow>
      send_free_game_digest m w ps
        = (Inr (),
           [Log WARNING not_configured_msg
              [(''missing_configs'', JList (map JStr (missing_configs m)))]])
      \<and> filter is_call (snd (send_free_game_digest m w ps)) = [])
   \<and> (recipients c = [] \<longrightarrow>
        fst (send_promotions c w ps) = Inr ()
        \<and> filter is_call (snd (send_promotions c w ps)) = []
        \<and> (ps \<noteq> [] \<longrightarrow>
             snd (send_promotions c w ps)
               = [Log WARNING
                    ''Microsoft email recipients are not configured; skipping free game notification''
                    []]))"
proof (intro conjI impI)
  assume a: "\<not> (truthy (client_id m) \<and> truthy (client_secret m) \<and> truthy (tenant_id m)
        \<and> truthy (sender m) \<and> truthy (recipient m))"
  note c = is_configured_missing [OF a]
  show s: "send_free_game_digest m w ps
        = (Inr (),
           [Log WARNING not_configured_msg
              [(''missing_configs'', JList (map JStr (missing_configs m)))]])"
    using digest_unconfigured [of m w ps] by (simp add: c)
  show "filter is_call (snd (send_free_game_digest m w ps)) = []"
    by (simp add: s)
next
  assume r: "recipients c = []"
  show "fst (send_promotions c w ps) = Inr ()"
    by (cases "ps = []") (simp_all add: promotions_empty promotions_unaddressed r)
  show "filter is_call (snd (send_promotions c w ps)) = []"
    by (cases "ps = []") (simp_all add: promotions_empty promotions_unaddressed r)
  assume "ps \<noteq> []"
  then show "snd (send_promotions c w ps)
               = [Log WARNING
                    ''Microsoft email recipients are not configured; skipping free game notification''
                    []]"
    by (simp add: promotions_unaddressed r)
qed

theorem missing_setting_no_call_witness:
  "\<not> (truthy (client_id senderless_mailer) \<and> truthy (client_secret senderless_mailer)
       \<and> truthy (tenant_id senderless_mailer) \<and> truthy (sender senderless_mailer)
       \<and> truthy (recipient senderless_mailer))
   \<and> send_free_game_digest senderless_mailer example_world [game_a]
       = (Inr (),
          [Log WARNING not_configured_msg
             [(''missing_configs'', JList [JStr ''MS_SENDER_ADDRESS''])]])
   \<and> filter is_call (snd (send_free_game_digest senderless_mailer example_world [game_a])) = []
   \<and> recipients unaddressed_client = []
   \<and> [game_a] \<noteq> []
   \<and> send_promotions unaddressed_client example_world [game_a]
       = (Inr (),
          [Log WARNING
             ''Microsoft email recipients are not configured; skipping free game notification''
             []])"
proof -
  have h1: "\<not> (truthy (client_id senderless_mailer) \<and> truthy (client_secret senderless_mailer)
       \<and> truthy (tenant_id senderless_mailer) \<and> truthy (sender senderless_mailer)
       \<and> truthy (recipient senderless_mailer))"
    by (simp add: senderless_mailer_fields truthy_simps)
  have h2: "recipients unaddressed_client = []"
    by (simp add: example_client_fields)
  have m: "missing_configs senderless_mailer = [''MS_SENDER_ADDRESS'']"
    by (simp add: missing_configs_def config_table_def senderless_mailer_fields truthy_simps)
  from missing_setting_no_call
         [of senderless_mailer example_world "[game_a]" unaddressed_client] h1 h2
  show ?thesis by (simp add: m prod_eq_iff)
qed

theorem senderless_client_still_calls:
  "mm_sender senderless_client = []
   \<and> filter is_call (snd (send_promotions senderless_client example_world [game_a]))
       = [TokenForClient (client_app senderless_client) scopes,
          Post (sendMail_url []) (promotions_message senderless_client [game_a]) (bearer ''tok'')]"
  by (simp add: example_promotions example_client_fields)

text \<open>
  Claim C2, as the code has it. When the result of the token request has no
  \<open>access_token\<close>, neither variant posts to the sendMail endpoint, and they differ in how
  they end. Under a valid configuration \<open>send_free_game_digest\<close> logs the failure with the
  provider's error code and description and returns normally: it raises nothing. For a
  non-empty sequence of promotions and a non-empty list of recipients \<open>send_promotions\<close>
  raises \<open>RuntimeError\<close> with the provider's error description in its message.
\<close>

theorem no_access_token_no_mail:
  "(fst (is_configured m) \<and> confidential_client m = Some app
      \<and> r = (if truthy_result (acquire_token_silent w app scopes)
              then acquire_token_silent w app scopes
              else acquire_token_for_client w app scopes)
      \<and> \<not> has_key ''access_token'' (result_dict r) \<longrightarrow>
      send_free_game_digest m w ps
        = (Inr (),
           TokenSilent app scopes
             # (if truthy_result (acquire_token_silent w app scopes) then []
                else [TokenForClient app scopes])
             @ [Log ERROR ''Failed to acquire Microsoft Graph access token.''
                  [(''error'', json_of (get_if r ''error'')),
                   (''description'', json_of (get_if r ''error_description''))]])
      \<and> filter is_post (snd (send_free_game_digest m w ps)) = [])
   \<and> (ps \<noteq> [] \<and> recipients c \<noteq> []
        \<and> acquire_token_for_client w (client_app c) scopes = Some d
        \<and> map_of d ''access_token'' = None \<longrightarrow>
        send_promotions c w ps
          = (Inl (RuntimeError (''Failed to acquire Microsoft Graph token: ''
                                  @ fmt (map_of d ''error_description''))),
             [TokenForClient (client_app c) scopes])
        \<and> filter is_post (snd (send_promotions c w ps)) = [])"
proof (intro conjI impI)
  assume a: "fst (is_configured m) \<and> confidential_client m = Some app
      \<and> r = (if truthy_result (acquire_token_silent w app scopes)
              then acquire_token_silent w app scopes
              else acquire_token_for_client w app scopes)
      \<and> \<not> has_key ''access_token'' (result_dict r)"
  let ?calls = "TokenSilent app scopes
                  # (if truthy_result (acquire_token_silent w app scopes) then []
                     else [TokenForClient app scopes])"
  let ?log = "Log ERROR ''Failed to acquire Microsoft Graph access token.''
                [(''error'', json_of (get_if r ''error'')),
                 (''description'', json_of (get_if r ''error_description''))]"
  from a have cfg: "fst (is_configured m)" and cl: "confidential_client m = Some app"
    and r: "r = (if truthy_result (acquire_token_silent w app scopes)
              then acquire_token_silent w app scopes
              else acquire_token_for_client w app scopes)"
    and nk: "\<not> has_key ''access_token'' (result_dict r)"
    by blast+
  have acq: "MsGraphMailer_acquire_token m w = (Inr None, ?calls @ [?log])"
    using acquire_token_eq [OF cl r refl] nk by simp
  have "send_free_game_digest m w ps = (Inr (), snd (is_configured m) @ ?calls @ [?log])"
    using digest_no_token [OF cfg, of w None ps] by (simp add: acq truthy_simps)
  then show s: "send_free_game_digest m w ps
        = (Inr (),
           TokenSilent app scopes
             # (if truthy_result (acquire_token_silent w app scopes) then []
                else [TokenForClient app scopes])
             @ [Log ERROR ''Failed to acquire Microsoft Graph access token.''
                  [(''error'', json_of (get_if r ''error'')),
                   (''description'', json_of (get_if r ''error_description''))]])"
    by (simp add: is_configured_True [OF cfg])
  show "filter is_post (snd (send_free_game_digest m w ps)) = []"
    by (simp add: s)
next
  assume a: "ps \<noteq> [] \<and> recipients c \<noteq> []
        \<and> acquire_token_for_client w (client_app c) scopes = Some d
        \<and> map_of d ''access_token'' = None"
  then have "fst (MicrosoftMailClient_acquire_token c w)
      = Inl (RuntimeError (''Failed to acquire Microsoft Graph token: ''
                             @ fmt (map_of d ''error_description'')))"
    by (simp add: MicrosoftMailClient_acquire_token_def)
  with a show s: "send_promotions c w ps
          = (Inl (RuntimeError (''Failed to acquire Microsoft Graph token: ''
                                  @ fmt (map_of d ''error_description''))),
             [TokenForClient (client_app c) scopes])"
    by (simp add: promotions_raise)
  show "filter is_post (snd (send_promotions c w ps)) = []"
    by (simp add: s)
qed

theorem no_access_token_no_mail_witness:
  "fst (is_configured example_mailer) \<and> confidential_client example_mailer = Some example_app
   \<and> \<not> truthy_result (acquire_token_silent denying_world example_app scopes)
   \<and> \<not> has_key ''access_token''
          (result_dict (acquire_token_for_client denying_world example_app scopes))
   \<and> send_free_game_digest example_mailer denying_world [game_a]
       = (Inr (),
          [TokenSilent example_app scopes, TokenForClient example_app scopes,
           Log ERROR ''Failed to acquire Microsoft Graph access token.''
             [(''error'', JStr ''invalid_client''), (''description'', JStr ''bad secret'')]])
   \<and> [game_a] \<noteq> [] \<and> recipients example_client \<noteq> []
   \<and> acquire_token_for_client denying_world (client_app example_client) scopes
       = Some [(''error'', ''invalid_client''), (''error_description'', ''bad secret'')]
   \<and> send_promotions example_client denying_world [game_a]
       = (Inl (RuntimeError ''Failed to acquire Microsoft Graph token: bad secret''),
          [TokenForClient (client_app example_client) scopes])"
proof -
  let ?d = "[(''error'', ''invalid_client''), (''error_description'', ''bad secret'')]"
  have h: "fst (is_configured example_mailer)"
    "confidential_client example_mailer = Some example_app"
    "\<not> truthy_result (acquire_token_silent denying_world example_app scopes)"
    "\<not> has_key ''access_token''
          (result_dict (acquire_token_for_client denying_world example_app scopes))"
    "recipients example_client \<noteq> []"
    "acquire_token_for_client denying_world (client_app example_client) scopes = Some ?d"
    "map_of ?d ''access_token'' = None"
    by (simp_all add: is_configured_example example_mailer_client example_worlds
          truthy_result_def has_key_def result_dict_def example_client_fields)
  from no_access_token_no_mail
         [of example_mailer example_app "acquire_token_for_client denying_world example_app scopes"
             denying_world "[game_a]" example_client ?d] h
  show ?thesis
    by (simp add: example_worlds get_if_def json_of_def fmt_def prod_eq_iff)
qed

theorem digest_returns_without_token:
  "fst (is_configured example_mailer)
   \<and> \<not> has_key ''access_token''
          (result_dict (acquire_token_for_client denying_world example_app scopes))
   \<and> fst (send_free_game_digest example_mailer denying_world [game_a]) = Inr ()"
proof -
  have "MsGraphMailer_acquire_token example_mailer denying_world
        = (Inr None,
           [TokenSilent example_app scopes, TokenForClient example_app scopes,
            Log ERROR ''Failed to acquire Microsoft Graph access token.''
              [(''error'', JStr ''invalid_client''), (''description'', JStr ''bad secret'')]])"
    by (simp add: acquire_token_eq [OF example_mailer_client refl refl] example_worlds
          truthy_result_def has_key_def result_dict_def get_if_def json_of_def)
  then show ?thesis
    using digest_no_token [OF is_configured_example, of denying_world None "[game_a]"]
    by (simp add: is_configured_example truthy_simps example_worlds has_key_def result_dict_def)
qed

text \<open>
  Claim C3, as the code has it. The two variants treat a reply of the sendMail endpoint
  that is not a success differently. \<open>send_free_game_digest\<close> logs an error with the status
  code and the body of the reply as its last act and returns normally: it raises nothing.
  \<open>send_promotions\<close> raises the \<open>HTTPStatusError\<close> of \<open>raise_for_status\<close>, which holds the reply
  with its status code and body, and writes no log record.
\<close>

theorem failed_delivery:
  "(Post u p h \<in> set (snd (send_free_game_digest m w ps)) \<and> \<not> is_success (post w u p h) \<longrightarrow>
      fst (send_free_game_digest m w ps) = Inr ()
      \<and> last (snd (send_free_game_digest m w ps))
          = Log ERROR ''Failed to send free game digest email.''
              [(''status_code'', JInt (int (status_code (post w u p h)))),
               (''content'', JStr (response_text (post w u p h)))])
   \<and> (Post u p h \<in> set (snd (send_promotions c w ps)) \<and> \<not> is_success (post w u p h) \<longrightarrow>
        fst (send_promotions c w ps) = Inl (HTTPStatusError (post w u p h))
        \<and> filter is_log (snd (send_promotions c w ps)) = [])"
proof (intro conjI impI)
  assume a: "Post u p h \<in> set (snd (send_free_game_digest m w ps)) \<and> \<not> is_success (post w u p h)"
  then obtain tok where t: "fst (is_configured m)"
    "fst (MsGraphMailer_acquire_token m w) = Inr tok" "truthy tok"
    "u = sendMail_url (fmt (sender m))" "p = digest_payload m ps" "h = bearer (fmt tok)"
    by (blast elim: digest_Post)
  note s = digest_post [OF t(1-3), of ps]
  show "fst (send_free_game_digest m w ps) = Inr ()" by (simp add: s)
  from a t(4-6) show "last (snd (send_free_game_digest m w ps))
          = Log ERROR ''Failed to send free game digest email.''
              [(''status_code'', JInt (int (status_code (post w u p h)))),
               (''content'', JStr (response_text (post w u p h)))]"
    by (simp add: s post_and_log_def Let_def)
next
  assume a: "Post u p h \<in> set (snd (send_promotions c w ps)) \<and> \<not> is_success (post w u p h)"
  then obtain tok where t: "ps \<noteq> []" "recipients c \<noteq> []"
    "fst (MicrosoftMailClient_acquire_token c w) = Inr tok"
    "u = sendMail_url (mm_sender c)" "p = promotions_message c ps" "h = bearer tok"
    by (blast elim: promotions_Post)
  note s = promotions_post [OF t(1-3)]
  from a t(4-6) show "fst (send_promotions c w ps) = Inl (HTTPStatusError (post w u p h))"
    by (simp add: s)
  from a t(4-6) show "filter is_log (snd (send_promotions c w ps)) = []"
    by (simp add: s)
qed

theorem failed_delivery_witness:
  "Post (sendMail_url ''s@x'') (digest_payload example_mailer [game_a]) (bearer ''tok'')
     \<in> set (snd (send_free_game_digest example_mailer failing_world [game_a]))
   \<and> \<not> is_success (post failing_world (sendMail_url ''s@x'')
                      (digest_payload example_mailer [game_a]) (bearer ''tok''))
   \<and> fst (send_free_game_digest example_mailer failing_world [game_a]) = Inr ()
   \<and> last (snd (send_free_game_digest example_mailer failing_world [game_a]))
       = Log ERROR ''Failed to send free game digest email.''
           [(''status_code'', JInt 500), (''content'', JStr ''boom'')]
   \<and> Post (sendMail_url ''s@x'') (promotions_message example_client [game_a]) (bearer ''tok'')
       \<in> set (snd (send_promotions example_client failing_world [game_a]))
   \<and> fst (send_promotions example_client failing_world [game_a])
       = Inl (HTTPStatusError \<lparr>status_code = 500, response_text = ''boom''\<rparr>)
   \<and> filter is_log (snd (send_promotions example_client failing_world [game_a])) = []"
proof -
  have h: "Post (sendMail_url ''s@x'') (digest_payload example_mailer [game_a]) (bearer ''tok'')
     \<in> set (snd (send_free_game_digest example_mailer failing_world [game_a]))"
    "Post (sendMail_url ''s@x'') (promotions_message example_client [game_a]) (bearer ''tok'')
       \<in> set (snd (send_promotions example_client failing_world [game_a]))"
    "\<not> is_success (post failing_world u p h)" for u p h
    by (simp_all add: failing_digest example_promotions example_worlds is_success_def)
  from failed_delivery
         [of "sendMail_url ''s@x''" "digest_payload example_mailer [game_a]" "bearer ''tok''"
             example_mailer failing_world "[game_a]" example_client]
       failed_delivery
         [of "sendMail_url ''s@x''" "promotions_message example_client [game_a]" "bearer ''tok''"
             example_mailer failing_world "[game_a]" example_client]
       h
  show ?thesis by (simp add: example_worlds)
qed

theorem failed_delivery_not_raised_not_logged:
  "\<not> is_success \<lparr>status_code = 500, response_text = ''boom''\<rparr>
   \<and> fst (send_free_game_digest example_mailer failing_world [game_a]) = Inr ()
   \<and> filter is_log (snd (send_promotions example_client failing_world [game_a])) = []"
  by (simp add: failing_digest example_promotions is_success_def)

text \<open>
  Claim C4, as the code has it. For the empty sequence of promotions \<open>send_promotions\<close> is
  a no-op in every configuration: it writes one debug record, makes no outbound call and
  returns. \<open>send_free_game_digest\<close> does not skip: under a valid configuration, once a
  token is acquired, it posts exactly one mail, whose body is the fixed sentence that no
  free games were detected, and returns.
\<close>

theorem empty_promotions:
  "send_promotions c w []
     = (Inr (), [Log DEBUG ''No promotions to send, skipping email notification'' []])
   \<and> filter is_call (snd (send_promotions c w [])) = []
   \<and> (fst (is_configured m) \<and> fst (MsGraphMailer_acquire_token m w) = Inr tok \<and> truthy tok \<longrightarrow>
        fst (send_free_game_digest m w []) = Inr ()
        \<and> filter is_post (snd (send_free_game_digest m w []))
            = [Post (sendMail_url (fmt (sender m))) (digest_payload m []) (bearer (fmt tok))]
        \<and> json_path [''message'', ''body'', ''content''] (digest_payload m [])
            = Some (JStr ''<p>No free games detected from Epic Store at this time.</p>''))"
proof (intro conjI impI)
  show "send_promotions c w []
     = (Inr (), [Log DEBUG ''No promotions to send, skipping email notification'' []])"
    by (rule promotions_empty)
  show "filter is_call (snd (send_promotions c w [])) = []"
    by (simp add: promotions_empty)
next
  assume a: "fst (is_configured m) \<and> fst (MsGraphMailer_acquire_token m w) = Inr tok \<and> truthy tok"
  then have s: "send_free_game_digest m w []
     = (Inr (), snd (is_configured m) @ snd (MsGraphMailer_acquire_token m w)
                  @ post_and_log m w [] tok)"
    by (simp add: digest_post)
  show "fst (send_free_game_digest m w []) = Inr ()" by (simp add: s)
  have 1: "filter is_post (snd (is_configured m)) = []"
    using a by (simp add: is_configured_True)
  have 2: "filter is_post (snd (MsGraphMailer_acquire_token m w)) = []"
  proof (rule filter_False, rule ballI)
    fix e assume "e \<in> set (snd (MsGraphMailer_acquire_token m w))"
    with acquire_token_no_post [of _ _ _ m w] show "\<not> is_post e" by (cases e) auto
  qed
  show "filter is_post (snd (send_free_game_digest m w []))
            = [Post (sendMail_url (fmt (sender m))) (digest_payload m []) (bearer (fmt tok))]"
    by (simp add: s 1 2 post_and_log_def Let_def)
  show "json_path [''message'', ''body'', ''content''] (digest_payload m [])
            = Some (JStr ''<p>No free games detected from Epic Store at this time.</p>'')"
    by (simp add: digest_payload_def build_body_def)
qed

theorem empty_promotions_witness:
  "fst (is_configured example_mailer)
   \<and> fst (MsGraphMailer_acquire_token example_mailer example_world) = Inr (Some ''tok'')
   \<and> truthy (Some ''tok'')
   \<and> fst (send_free_game_digest example_mailer example_world []) = Inr ()
   \<and> filter is_post (snd (send_free_game_digest example_mailer example_world []))
       = [Post (sendMail_url ''s@x'') (digest_payload example_mailer []) (bearer ''tok'')]
   \<and> json_path [''message'', ''body'', ''content''] (digest_payload example_mailer [])
       = Some (JStr ''<p>No free games detected from Epic Store at this time.</p>'')
   \<and> send_promotions example_client example_world []
       = (Inr (), [Log DEBUG ''No promotions to send, skipping email notification'' []])"
proof -
  have h: "fst (is_configured example_mailer)"
    "fst (MsGraphMailer_acquire_token example_mailer example_world) = Inr (Some ''tok'')"
    "truthy (Some ''tok'')"
    by (simp_all add: is_configured_example example_acquire truthy_simps)
  from empty_promotions [of example_client example_world example_mailer "Some ''tok''"] h
  show ?thesis by (simp add: example_mailer_fields fmt_def)
qed

theorem digest_mails_on_empty_promotions:
  "fst (is_configured example_mailer)
   \<and> filter is_call (snd (send_free_game_digest example_mailer example_world []))
       = [TokenSilent example_app scopes, TokenForClient example_app scopes,
          Post (sendMail_url ''s@x'') (digest_payload example_mailer []) (bearer ''tok'')]"
  by (simp add: is_configured_example example_digest)

text \<open>
  Claim C5, as the code has it. Every payload either variant posts has a \<open>message\<close> with a
  subject, a body of content type \<open>HTML\<close> holding the rendered text, and \<open>toRecipients\<close> with
  exactly one entry per configured recipient address, in order: the one recipient of
  \<open>send_free_game_digest\<close>, each recipient of \<open>send_promotions\<close>. The message of
  \<open>send_free_game_digest\<close> also has \<open>from\<close> with the configured sender address. The payload
  of \<open>send_promotions\<close> has the member \<open>message\<close> only, and its message has no \<open>from\<close>.
\<close>

theorem payload_shape:
  "(Post u p h \<in> set (snd (send_free_game_digest m w ps)) \<longrightarrow>
      json_keys (the_message p) = [''subject'', ''body'', ''toRecipients'', ''from'']
      \<and> json_path [''message'', ''subject''] p = Some (JStr ''Epic Store - Weekly Free Games Update'')
      \<and> json_path [''message'', ''body''] p
          = Some (JObj [(''contentType'', JStr ''HTML''), (''content'', JStr (build_body ps))])
      \<and> to_addresses p = Some [Some (json_of (recipient m))]
      \<and> json_path [''message'', ''from''] p
          = Some (JObj [(''emailAddress'', JObj [(''address'', json_of (sender m))])])
      \<and> truthy (recipient m) \<and> truthy (sender m))
   \<and> (Post u p h \<in> set (snd (send_promotions c w ps)) \<longrightarrow>
        json_keys p = [''message'']
        \<and> json_keys (the_message p) = [''subject'', ''body'', ''toRecipients'']
        \<and> json_path [''message'', ''subject''] p = Some (JStr mail_subject)
        \<and> json_path [''message'', ''body''] p
            = Some (JObj [(''contentType'', JStr ''HTML''), (''content'', JStr (html_body ps))])
        \<and> to_addresses p = Some (map (\<lambda>r. Some (JStr r)) (recipients c))
        \<and> json_path [''message'', ''from''] p = None
        \<and> recipients c \<noteq> [])"
proof (intro conjI impI)
  assume "Post u p h \<in> set (snd (send_free_game_digest m w ps))"
  then obtain tok where t: "fst (is_configured m)" "p = digest_payload m ps"
    by (blast elim: digest_Post)
  note f = is_configured_fields [OF t(1)]
  show "json_keys (the_message p) = [''subject'', ''body'', ''toRecipients'', ''from'']"
    by (simp add: t(2) digest_payload_def the_message_def)
  show "json_path [''message'', ''subject''] p = Some (JStr ''Epic Store - Weekly Free Games Update'')"
    by (simp add: t(2) digest_payload_def)
  show "json_path [''message'', ''body''] p
          = Some (JObj [(''contentType'', JStr ''HTML''), (''content'', JStr (build_body ps))])"
    by (simp add: t(2) digest_payload_def)
  show "to_addresses p = Some [Some (json_of (recipient m))]"
    by (simp add: t(2) digest_payload_def to_addresses_def)
  show "json_path [''message'', ''from''] p
          = Some (JObj [(''emailAddress'', JObj [(''address'', json_of (sender m))])])"
    by (simp add: t(2) digest_payload_def)
  from f show "truthy (recipient m)" by blast
  from f show "truthy (sender m)" by blast
next
  assume "Post u p h \<in> set (snd (send_promotions c w ps))"
  then obtain tok where t: "recipients c \<noteq> []" "p = promotions_message c ps"
    by (blast elim: promotions_Post)
  show "json_keys p = [''message'']"
    by (simp add: t(2) promotions_message_def)
  show "json_keys (the_message p) = [''subject'', ''body'', ''toRecipients'']"
    by (simp add: t(2) promotions_message_def the_message_def)
  show "json_path [''message'', ''subject''] p = Some (JStr mail_subject)"
    by (simp add: t(2) promotions_message_def)
  show "json_path [''message'', ''body''] p
            = Some (JObj [(''contentType'', JStr ''HTML''), (''content'', JStr (html_body ps))])"
    by (simp add: t(2) promotions_message_def)
  show "to_addresses p = Some (map (\<lambda>r. Some (JStr r)) (recipients c))"
    by (simp add: t(2) promotions_message_def to_addresses_def o_def)
  show "json_path [''message'', ''from''] p = None"
    by (simp add: t(2) promotions_message_def)
  show "recipients c \<noteq> []" by (rule t(1))
qed

theorem payload_shape_witness:
  "Post (sendMail_url ''s@x'') (digest_payload example_mailer [game_a]) (bearer ''tok'')
     \<in> set (snd (send_free_game_digest example_mailer example_world [game_a]))
   \<and> json_path [''message'', ''body''] (digest_payload example_mailer [game_a])
       = Some (JObj [(''contentType'', JStr ''HTML''), (''content'', JStr (build_body [game_a]))])
   \<and> to_addresses (digest_payload example_mailer [game_a]) = Some [Some (JStr ''r@x'')]
   \<and> json_path [''message'', ''from''] (digest_payload example_mailer [game_a])
       = Some (JObj [(''emailAddress'', JObj [(''address'', JStr ''s@x'')])])
   \<and> Post (sendMail_url ''s@x'') (promotions_message example_client [game_a]) (bearer ''tok'')
       \<in> set (snd (send_promotions example_client example_world [game_a]))
   \<and> json_keys (promotions_message example_client [game_a]) = [''message'']
   \<and> to_addresses (promotions_message example_client [game_a])
       = Some [Some (JStr ''r1@x''), Some (JStr ''r2@x'')]"
proof -
  have h: "Post (sendMail_url ''s@x'') (digest_payload example_mailer [game_a]) (bearer ''tok'')
     \<in> set (snd (send_free_game_digest example_mailer example_world [game_a]))"
    "Post (sendMail_url ''s@x'') (promotions_message example_client [game_a]) (bearer ''tok'')
       \<in> set (snd (send_promotions example_client example_world [game_a]))"
    by (simp_all add: example_digest example_promotions)
  from payload_shape
         [of "sendMail_url ''s@x''" "digest_payload example_mailer [game_a]" "bearer ''tok''"
             example_mailer example_world "[game_a]" example_client]
       payload_shape
         [of "sendMail_url ''s@x''" "promotions_message example_client [game_a]" "bearer ''tok''"
             example_mailer example_world "[game_a]" example_client]
       h
  show ?thesis by (simp add: example_mailer_fields example_client_fields json_of_def)
qed

theorem payload_without_from:
  "Post (sendMail_url ''s@x'') (promotions_message example_client [game_a]) (bearer ''tok'')
     \<in> set (snd (send_promotions example_client example_world [game_a]))
   \<and> json_path [''message'', ''from''] (promotions_message example_client [game_a]) = None
   \<and> json_member ''saveToSentItems'' (promotions_message example_client [game_a]) = None
   \<and> Post (sendMail_url ''s@x'') (digest_payload example_mailer [game_a]) (bearer ''tok'')
       \<in> set (snd (send_free_game_digest example_mailer example_world [game_a]))
   \<and> json_member ''saveToSentItems'' (digest_payload example_mailer [game_a])
       = Some (JStr ''true'')"
  by (simp add: example_digest example_promotions promotions_message_def digest_payload_def)

section \<open>Token acquisition\<close>

text \<open>
  Claim C8, as the code has it. \<open>MsGraphMailer._acquire_token\<close> first attempts the silent
  acquisition and issues the client-credentials request only if the silent attempt yields
  no result. \<open>MicrosoftMailClient._acquire_token\<close> makes no silent attempt: it always issues
  exactly one client-credentials request.
\<close>

theorem token_request_order:
  "(confidential_client m = Some app \<longrightarrow>
      filter is_token_request (snd (MsGraphMailer_acquire_token m w))
        = TokenSilent app scopes
            # (if truthy_result (acquire_token_silent w app scopes) then []
               else [TokenForClient app scopes]))
   \<and> filter is_token_request (snd (MicrosoftMailClient_acquire_token c w))
       = [TokenForClient (client_app c) scopes]"
proof (intro conjI impI)
  assume cl: "confidential_client m = Some app"
  show "filter is_token_request (snd (MsGraphMailer_acquire_token m w))
        = TokenSilent app scopes
            # (if truthy_result (acquire_token_silent w app scopes) then []
               else [TokenForClient app scopes])"
    by (simp add: acquire_token_eq [OF cl refl refl])
next
  show "filter is_token_request (snd (MicrosoftMailClient_acquire_token c w))
       = [TokenForClient (client_app c) scopes]"
    by (simp add: client_acquire_token_trace)
qed

theorem token_request_order_witness:
  "confidential_client example_mailer = Some example_app
   \<and> \<not> truthy_result (acquire_token_silent example_world example_app scopes)
   \<and> filter is_token_request (snd (MsGraphMailer_acquire_token example_mailer example_world))
       = [TokenSilent example_app scopes, TokenForClient example_app scopes]
   \<and> truthy_result (acquire_token_silent cached_world example_app scopes)
   \<and> filter is_token_request (snd (MsGraphMailer_acquire_token example_mailer cached_world))
       = [TokenSilent example_app scopes]"
proof -
  have h: "confidential_client example_mailer = Some example_app"
    "\<not> truthy_result (acquire_token_silent example_world example_app scopes)"
    "truthy_result (acquire_token_silent cached_world example_app scopes)"
    by (simp_all add: example_mailer_client example_worlds truthy_result_def)
  from token_request_order [of example_mailer example_app example_world]
       token_request_order [of example_mailer example_app cached_world] h
  show ?thesis by simp
qed

theorem client_never_tries_silent:
  "truthy_result (acquire_token_silent cached_world (client_app example_client) scopes)
   \<and> snd (MicrosoftMailClient_acquire_token example_client cached_world)
       = [TokenForClient (client_app example_client) scopes]"
  by (simp add: client_acquire_token_trace example_worlds truthy_result_def)

end
